theory Spec2Isabelle
  imports Complex_Main "HOL-Library.Word"
begin

section \<open>The data model of IGamingAgentPlugin.h\<close>

text \<open>
  The header declares plain structs, one enum, an abstract class and an RAII wrapper.
  A \<open>std::string\<close> is a \<open>string\<close>, a \<open>std::vector\<close> a list, a \<open>std::map\<close> a
  partial map, an \<open>int\<close> a 32-bit word, read as signed by \<open>sint\<close>. A \<open>float\<close>
  field is only stored and compared here, never computed with, and is a \<open>real\<close>. A
  \<open>std::chrono::system_clock::time_point\<close> is its tick count since the epoch of the
  clock; the default-constructed one is the epoch itself.
\<close>

type_synonym time_point = int

record CommunityInsight =
  source :: string
  content :: string
  sentiment :: real
  topics :: "string list"
  author :: string
  timestamp :: time_point
  engagement :: "string \<rightharpoonup> 32 word"
  category :: string
  priority :: real

record FeatureProposal =
  title :: string
  description :: string
  sourceInsights :: "string list"
  category :: string
  monetizationType :: string
  priority :: real
  f2pCompliant :: bool
  guardrailNotes :: "string list"
  comparativeNotes :: "string list"
  createdAt :: time_point

text \<open>
  A \<open>FeatureProposal\<close> created with no initialiser of its own: every member takes its
  default member initialiser (\<open>priority = 0.5f\<close>, \<open>f2pCompliant = true\<close>), strings and
  vectors are empty.
\<close>

definition FeatureProposal_default :: FeatureProposal where
  "FeatureProposal_default =
     \<lparr>title = [], description = [], sourceInsights = [], category = [],
      monetizationType = [], priority = 1 / 2, f2pCompliant = True,
      guardrailNotes = [], comparativeNotes = [], createdAt = 0\<rparr>"

text \<open>The enum class, in the order of its enumerators.\<close>

datatype MonetizationGuardrail =
    NoPayToWin
  | CosmeticOnly
  | NoGameplayAdvantage
  | FairProgression
  | TransparentOdds
  | NoLootBoxes
  | AccessibleContent

text \<open>
  The value of each enumerator: none has an initialiser, so the first is 0 and each
  next one is one more.
\<close>

fun guardrail_value :: "MonetizationGuardrail \<Rightarrow> nat" where
  "guardrail_value NoPayToWin = 0"
| "guardrail_value CosmeticOnly = 1"
| "guardrail_value NoGameplayAdvantage = 2"
| "guardrail_value FairProgression = 3"
| "guardrail_value TransparentOdds = 4"
| "guardrail_value NoLootBoxes = 5"
| "guardrail_value AccessibleContent = 6"

record GuardrailResult =
  passed :: bool
  guardrail :: MonetizationGuardrail
  message :: string
  suggestions :: "string list"

section \<open>The abstract class IGamingAgentPlugin\<close>

text \<open>
  Every method of the class is pure virtual: what it computes is the implementer's.
  An implementation is therefore a record of functions, one per method, over the
  implementation's own state \<open>'s\<close>; the three synchronous data operations are the ones
  modelled. None of them is declared \<open>const\<close>, so each takes the state and returns the
  new one. Their parameters are as declared: \<open>fetchInsights\<close> takes an \<open>int\<close>, the
  other two take their vector by reference to const and return a fresh value. The keys
  of the returned \<open>std::map\<close> are \<open>size_t\<close> indices.
\<close>

type_synonym verdicts = "nat \<rightharpoonup> GuardrailResult list"

record 's IGamingAgentPlugin =
  fetchInsights :: "32 word \<Rightarrow> 's \<Rightarrow> CommunityInsight list \<times> 's"
  generateProposals :: "CommunityInsight list \<Rightarrow> 's \<Rightarrow> FeatureProposal list \<times> 's"
  validateProposals :: "FeatureProposal list \<Rightarrow> 's \<Rightarrow> verdicts \<times> 's"

text \<open>
  A call of \<open>fetchInsights\<close> through the interface. The declaration gives the parameter
  the default argument 50: a call that passes no limit (\<open>None\<close>) is a call with 50.
\<close>

definition fetchInsights_call ::
  "'s IGamingAgentPlugin \<Rightarrow> 32 word option \<Rightarrow> 's \<Rightarrow> CommunityInsight list \<times> 's" where
  "fetchInsights_call plugin limit s =
     fetchInsights plugin (case limit of None \<Rightarrow> 50 | Some l \<Rightarrow> l) s"

text \<open>The seven enumerators as a list, in the order of their values.\<close>

definition all_guardrails :: "MonetizationGuardrail list" where
  "all_guardrails =
     [NoPayToWin, CosmeticOnly, NoGameplayAdvantage, FairProgression,
      TransparentOdds, NoLootBoxes, AccessibleContent]"

section \<open>The RAII wrapper PluginHandle\<close>

text \<open>
  A \<open>PluginHandle\<close> holds one member, \<open>std::unique_ptr<IGamingAgentPlugin> plugin_\<close>.
  Handles and plugin instances are objects with an identity, and a move names two
  handles that may be the same object, so both live in a store: \<open>owned\<close> gives the
  pointer each handle holds (\<open>None\<close> is \<open>nullptr\<close>), and \<open>calls\<close> records, oldest
  first, what the wrapper does to plugin instances: a call of the virtual \<open>shutdown()\<close>,
  and the \<open>delete\<close> by which a \<open>unique_ptr\<close> destroys the instance it owns.
\<close>

type_synonym handle = nat
type_synonym plugin_addr = nat

datatype call = Shutdown plugin_addr | Delete plugin_addr

record store =
  owned :: "handle \<Rightarrow> plugin_addr option"
  calls :: "call list"

definition shutdown :: "plugin_addr \<Rightarrow> store \<Rightarrow> store" where
  "shutdown p w = w\<lparr>calls := calls w @ [Shutdown p]\<rparr>"

definition delete :: "plugin_addr \<Rightarrow> store \<Rightarrow> store" where
  "delete p w = w\<lparr>calls := calls w @ [Delete p]\<rparr>"

text \<open>
  The three operations of \<open>std::unique_ptr\<close> that the wrapper uses, as the C++
  standard defines them: \<open>release\<close> gives up the pointer and leaves \<open>nullptr\<close>;
  \<open>reset\<close> stores the new pointer first and then deletes the old one if it was not
  null; the destructor deletes the pointer if it is not null.
\<close>

definition unique_ptr_release :: "handle \<Rightarrow> store \<Rightarrow> plugin_addr option \<times> store" where
  "unique_ptr_release h w = (owned w h, w\<lparr>owned := (owned w)(h := None)\<rparr>)"

definition unique_ptr_reset :: "handle \<Rightarrow> plugin_addr option \<Rightarrow> store \<Rightarrow> store" where
  "unique_ptr_reset h p w =
     (let old = owned w h;
          w' = w\<lparr>owned := (owned w)(h := p)\<rparr>
      in case old of None \<Rightarrow> w' | Some q \<Rightarrow> delete q w')"

definition unique_ptr_destroy :: "handle \<Rightarrow> store \<Rightarrow> store" where
  "unique_ptr_destroy h w =
     (case owned w h of
        None \<Rightarrow> w
      | Some q \<Rightarrow> (delete q w)\<lparr>owned := (owned w)(h := None)\<rparr>)"

text \<open>
  \<open>~PluginHandle() { if (plugin_) plugin_->shutdown(); }\<close>, followed by the
  destruction of the member.
\<close>

definition PluginHandle_destroy :: "handle \<Rightarrow> store \<Rightarrow> store" where
  "PluginHandle_destroy h w =
     unique_ptr_destroy h (case owned w h of None \<Rightarrow> w | Some p \<Rightarrow> shutdown p w)"

text \<open>
  \<open>operator=(PluginHandle&& other)\<close> is \<open>plugin_ = std::move(other.plugin_)\<close>: the move
  assignment of \<open>unique_ptr\<close>, which is \<open>reset(other.release())\<close>.
\<close>

definition PluginHandle_move_assign :: "handle \<Rightarrow> handle \<Rightarrow> store \<Rightarrow> store" where
  "PluginHandle_move_assign h other w =
     (let (p, w') = unique_ptr_release other w in unique_ptr_reset h p w')"

text \<open>
  The property of a record of calls: every \<open>delete\<close> of an instance comes after a
  \<open>shutdown()\<close> of that instance. \<open>down\<close> lists the instances shut down so far.
\<close>

fun shutdown_before_delete :: "plugin_addr list \<Rightarrow> call list \<Rightarrow> bool" where
  "shutdown_before_delete down [] = True"
| "shutdown_before_delete down (Shutdown p # cs) = shutdown_before_delete (p # down) cs"
| "shutdown_before_delete down (Delete p # cs) =
     (p \<in> set down \<and> shutdown_before_delete down cs)"

text \<open>
  A store to run the wrapper on: handle 0 owns instance 10, handle 1 owns instance 20,
  every other handle is empty, and nothing has been called yet.
\<close>

definition two_handles :: store where
  "two_handles = \<lparr>owned = (\<lambda>h. None)(0 := Some 10, 1 := Some 20), calls = []\<rparr>"

section \<open>The Guardrail Engine of the specification\<close>

text \<open>
  Modelled from the spec: the rules that \<open>validateProposals\<close> evaluates. The header
  declares the method and the seven guardrails and holds no rule; section 4.3 of the
  specification makes each rule a pure predicate over the fields of a proposal, with
  a message and remediation suggestions. What each rule decides is left open there, so
  the rules are a parameter: for a guardrail and a proposal, whether the proposal
  passes, the message, and the suggestions.
\<close>

type_synonym rule = "FeatureProposal \<Rightarrow> bool \<times> string \<times> string list"
type_synonym rulebook = "MonetizationGuardrail \<Rightarrow> rule"

text \<open>
  Modelled from the spec: the verdict of one rule on one proposal, which carries the
  identifier of the rule it came from (section 3, GuardrailVerdict).
\<close>

definition evaluate_rule ::
  "rulebook \<Rightarrow> MonetizationGuardrail \<Rightarrow> FeatureProposal \<Rightarrow> GuardrailResult" where
  "evaluate_rule rules g p =
     (case rules g p of (ok, msg, hints) \<Rightarrow>
        \<lparr>passed = ok, guardrail = g, message = msg, suggestions = hints\<rparr>)"

text \<open>
  Modelled from the spec: the pass over the rules for one proposal. Section 4.3
  evaluates every rule, in the order given, whatever the earlier rules answered.
\<close>

fun evaluate_rules ::
  "rulebook \<Rightarrow> FeatureProposal \<Rightarrow> MonetizationGuardrail list \<Rightarrow> GuardrailResult list" where
  "evaluate_rules rules p [] = []"
| "evaluate_rules rules p (g # gs) = evaluate_rule rules g p # evaluate_rules rules p gs"

text \<open>
  Modelled from the spec: the pass over the proposals, which stores under each index
  the verdicts of the proposal at that index (section 4.3, the contract of
  \<open>validate\<close>); \<open>k\<close> is the index of the first proposal still to do.
\<close>

fun validate_from ::
  "rulebook \<Rightarrow> nat \<Rightarrow> FeatureProposal list \<Rightarrow> verdicts \<Rightarrow> verdicts" where
  "validate_from rules k [] m = m"
| "validate_from rules k (p # ps) m =
     validate_from rules (Suc k) ps (m(k \<mapsto> evaluate_rules rules p all_guardrails))"

text \<open>
  Modelled from the spec: \<open>validate\<close> of section 4.3, the body that the header's
  \<open>validateProposals\<close> lacks, with the parameter and the result that the header
  declares. The rules are evaluated in the order of the enumeration.
\<close>

definition validate :: "rulebook \<Rightarrow> FeatureProposal list \<Rightarrow> verdicts" where
  "validate rules proposals = validate_from rules 0 proposals Map.empty"





text \<open>
  Two rulebooks to run the engine on. The first fails a proposal on no-pay-to-win when
  its monetization type is pay-to-win and passes everything else; the second agrees
  with it on no-pay-to-win and fails every proposal on the six other rules.
\<close>

definition sample_rules :: rulebook where
  "sample_rules g p =
     (if g = NoPayToWin \<and> monetizationType p = ''pay-to-win''
      then (False, ''payment buys power'', [''sell cosmetics instead''])
      else (True, ''ok'', []))"

definition harsh_rules :: rulebook where
  "harsh_rules g p =
     (if g = NoPayToWin then sample_rules g p else (False, ''refused'', [''drop it'']))"

section \<open>Properties\<close>

text \<open>
  C8. A newly created FeatureProposal has \<open>f2pCompliant\<close> equal to true by default, before
  any guardrail validation has run.
\<close>

theorem FeatureProposal_default_f2pCompliant:
  "f2pCompliant FeatureProposal_default = True"
  by (simp add: FeatureProposal_default_def)

text \<open>
  C10. When \<open>fetchInsights\<close> is called without an explicit limit, the limit the
  implementation receives is 50, whatever the implementation is.
\<close>

theorem fetchInsights_default_limit:
  "fetchInsights_call plugin None s = fetchInsights plugin 50 s"
  by (simp add: fetchInsights_call_def)

text \<open>
  The destructor of a handle that owns an instance shuts the instance down and then
  deletes it.
\<close>

lemma PluginHandle_destroy_calls:
  "owned w h = Some p \<Longrightarrow>
     calls (PluginHandle_destroy h w) = calls w @ [Shutdown p, Delete p]"
  by (simp add: PluginHandle_destroy_def unique_ptr_destroy_def shutdown_def delete_def)

text \<open>A move assignment of a handle to itself calls nothing and keeps the instance.\<close>

lemma PluginHandle_self_move_assign:
  "calls (PluginHandle_move_assign h h w) = calls w
   \<and> owned (PluginHandle_move_assign h h w) = owned w"
  by (auto simp: PluginHandle_move_assign_def unique_ptr_release_def unique_ptr_reset_def)

text \<open>
  C9, at the failing input. Handle 0 owns instance 10, which was never shut down, and is
  move-assigned from handle 1: instance 10 is deleted and \<open>shutdown()\<close> is not called on
  it. Handle 0 ends up owning instance 20 and handle 1 is empty.
\<close>

theorem PluginHandle_move_assign_skips_shutdown:
  "calls (PluginHandle_move_assign 0 1 two_handles) = [Delete 10]
   \<and> \<not> shutdown_before_delete [] (calls (PluginHandle_move_assign 0 1 two_handles))
   \<and> owned (PluginHandle_move_assign 0 1 two_handles) 0 = Some 20
   \<and> owned (PluginHandle_move_assign 0 1 two_handles) 1 = None
   \<and> shutdown_before_delete [] (calls (PluginHandle_destroy 0 two_handles))"
  by (simp add: PluginHandle_move_assign_def unique_ptr_release_def unique_ptr_reset_def
      PluginHandle_destroy_def unique_ptr_destroy_def shutdown_def delete_def two_handles_def)

text \<open>The rule pass is a map over the rules: no rule is skipped.\<close>

lemma evaluate_rules_map:
  "evaluate_rules rules p gs = map (\<lambda>g. evaluate_rule rules g p) gs"
  by (induction gs) simp_all

text \<open>
  What the proposal pass leaves under an index: the verdicts of the proposal there, for
  the indices it covers, and the earlier entry elsewhere.
\<close>

lemma validate_from_lookup:
  "validate_from rules k ps m i =
     (if k \<le> i \<and> i < k + length ps
      then Some (evaluate_rules rules (ps ! (i - k)) all_guardrails)
      else m i)"
proof (induction ps arbitrary: k m)
  case Nil
  show ?case by auto
next
  case (Cons p ps)
  have "validate_from rules k (p # ps) m i =
      validate_from rules (Suc k) ps (m(k \<mapsto> evaluate_rules rules p all_guardrails)) i"
    by simp
  also have "\<dots> =
      (if Suc k \<le> i \<and> i < Suc k + length ps
       then Some (evaluate_rules rules (ps ! (i - Suc k)) all_guardrails)
       else (m(k \<mapsto> evaluate_rules rules p all_guardrails)) i)"
    by (rule Cons.IH)
  also have "\<dots> =
      (if k \<le> i \<and> i < k + length (p # ps)
       then Some (evaluate_rules rules ((p # ps) ! (i - k)) all_guardrails)
       else m i)"
    by (auto simp: nth_Cons' not_less_eq_eq)
  finally show ?case .
qed

lemma validate_lookup:
  "validate rules ps i =
     (if i < length ps
      then Some (map (\<lambda>g. evaluate_rule rules g (ps ! i)) all_guardrails)
      else None)"
  by (simp add: validate_def validate_from_lookup evaluate_rules_map)

lemma guardrail_evaluate_rule: "guardrail (evaluate_rule rules g p) = g"
  by (simp add: evaluate_rule_def split: prod.split)

lemma all_guardrails_nth: "all_guardrails ! guardrail_value g = g"
  by (cases g) (simp_all add: all_guardrails_def)

lemma guardrail_value_less: "guardrail_value g < length all_guardrails"
  by (cases g) (simp_all add: all_guardrails_def)

lemma all_guardrails_UNIV: "set all_guardrails = UNIV"
proof -
  have "g \<in> set all_guardrails" for g
    by (cases g) (simp_all add: all_guardrails_def)
  then show ?thesis by blast
qed

text \<open>
  C2. The guardrails are a fixed enumeration of exactly seven rules: the list of the
  enumerators, in the order no-pay-to-win, cosmetic-only, no-gameplay-advantage,
  fair-progression, transparent-odds, no-loot-boxes, accessible-content, has the
  values 0 to 6, no repetition, and holds every guardrail there is. For every proposal
  the engine returns the verdicts of all seven rules in that order, each the verdict of
  its own rule on that proposal; and the verdict of a rule is the same under any two
  rulebooks that agree on that rule, however the other rules answer: no rule depends on
  another and none is skipped after a failure.
\<close>

theorem guardrails_fixed_and_all_evaluated:
  assumes "i < length proposals"
  shows "all_guardrails =
        [NoPayToWin, CosmeticOnly, NoGameplayAdvantage, FairProgression,
         TransparentOdds, NoLootBoxes, AccessibleContent]
    \<and> map guardrail_value all_guardrails = [0, 1, 2, 3, 4, 5, 6]
    \<and> distinct all_guardrails
    \<and> set all_guardrails = UNIV
    \<and> (\<exists>vs. validate rules proposals i = Some vs
          \<and> map guardrail vs = all_guardrails
          \<and> vs = map (\<lambda>g. evaluate_rule rules g (proposals ! i)) all_guardrails)
    \<and> (rules g = rules' g \<longrightarrow>
          the (validate rules proposals i) ! guardrail_value g
            = the (validate rules' proposals i) ! guardrail_value g)"
proof -
  have a: "map guardrail_value all_guardrails = [0, 1, 2, 3, 4, 5, 6]"
    and b: "distinct all_guardrails"
    by (simp_all add: all_guardrails_def)
  have c: "map guardrail (map (\<lambda>g. evaluate_rule rules g (proposals ! i)) all_guardrails)
      = all_guardrails"
    by (simp add: guardrail_evaluate_rule o_def)
  have d: "rules g = rules' g \<Longrightarrow>
      the (validate rules proposals i) ! guardrail_value g
        = the (validate rules' proposals i) ! guardrail_value g"
    using assms guardrail_value_less [of g]
    by (simp add: validate_lookup all_guardrails_nth evaluate_rule_def)
  from a b c d assms show ?thesis
    by (simp add: validate_lookup all_guardrails_UNIV) (simp add: all_guardrails_def)
qed

text \<open>
  The theorem at a proposal whose monetization type is pay-to-win: under both rulebooks
  the seven verdicts come in the order of the enumeration and the first one, of
  no-pay-to-win, is the same failure, although the second rulebook fails the six other
  rules as well.
\<close>

theorem guardrails_fixed_and_all_evaluated_witness:
  "(0::nat) < length [FeatureProposal_default\<lparr>monetizationType := ''pay-to-win''\<rparr>]
   \<and> sample_rules NoPayToWin = harsh_rules NoPayToWin
   \<and> map guardrail
        (the (validate harsh_rules
           [FeatureProposal_default\<lparr>monetizationType := ''pay-to-win''\<rparr>] 0))
      = all_guardrails
   \<and> map passed
        (the (validate harsh_rules
           [FeatureProposal_default\<lparr>monetizationType := ''pay-to-win''\<rparr>] 0))
      = [False, False, False, False, False, False, False]
   \<and> the (validate sample_rules
        [FeatureProposal_default\<lparr>monetizationType := ''pay-to-win''\<rparr>] 0)
        ! guardrail_value NoPayToWin
      = the (validate harsh_rules
        [FeatureProposal_default\<lparr>monetizationType := ''pay-to-win''\<rparr>] 0)
        ! guardrail_value NoPayToWin"
proof -
  have len: "(0::nat) < length [FeatureProposal_default\<lparr>monetizationType := ''pay-to-win''\<rparr>]"
    by simp
  have agree: "sample_rules NoPayToWin = harsh_rules NoPayToWin"
    by (rule ext) (simp add: harsh_rules_def)
  have order: "map passed
        (the (validate harsh_rules
           [FeatureProposal_default\<lparr>monetizationType := ''pay-to-win''\<rparr>] 0))
      = [False, False, False, False, False, False, False]"
    by (simp add: validate_lookup evaluate_rule_def harsh_rules_def sample_rules_def
        all_guardrails_def)
  from guardrails_fixed_and_all_evaluated
         [OF len, of harsh_rules NoPayToWin harsh_rules]
  have "map guardrail
        (the (validate harsh_rules
           [FeatureProposal_default\<lparr>monetizationType := ''pay-to-win''\<rparr>] 0))
      = all_guardrails"
    by auto
  moreover from guardrails_fixed_and_all_evaluated
         [OF len, of sample_rules NoPayToWin harsh_rules] agree
  have "the (validate sample_rules
        [FeatureProposal_default\<lparr>monetizationType := ''pay-to-win''\<rparr>] 0)
        ! guardrail_value NoPayToWin
      = the (validate harsh_rules
        [FeatureProposal_default\<lparr>monetizationType := ''pay-to-win''\<rparr>] 0)
        ! guardrail_value NoPayToWin"
    by blast
  ultimately show ?thesis using len agree order by blast
qed






end
